theory Spec2Isabelle
  imports Main
begin

section \<open>The cluster plan document engine of pkg/install/plan.go\<close>

text \<open>
  A shallow embedding of \<^verbatim>\<open>pkg/install/plan.go\<close>: password generation, the template
  builder, the migration of deprecated fields, the default resolver and the line scan of
  \<^verbatim>\<open>FilePlanner.Write\<close> that re-injects the comments of \<^verbatim>\<open>commentMap\<close>.
  Go strings are byte strings (\<^typ>\<open>string\<close>), Go \<^verbatim>\<open>int\<close>s are \<^typ>\<open>int\<close>
  (no arithmetic of the file can overflow: the only operations are comparisons, a
  division by two of a count of spaces and increments of small counters), a nilable
  pointer is an \<^typ>\<open>'a option\<close>, a slice is a list (the nil slice is \<^term>\<open>[]\<close>).
\<close>

subsection \<open>Errors\<close>

datatype error =
    GarblerError string \<comment> \<open>the error returned by \<^verbatim>\<open>garbler.NewPassword\<close>\<close>
  | FailedToGenerate \<comment> \<open>\<^verbatim>\<open>errors.New("failed to generate alphanumeric password")\<close>\<close>
  | EmptyStack \<comment> \<open>\<^verbatim>\<open>errors.New("Empty Stack")\<close>\<close>
  | CouldNotReadFile string \<comment> \<open>\<^verbatim>\<open>could not read file: ...\<close>\<close>
  | FailedToUnmarshal string \<comment> \<open>\<^verbatim>\<open>failed to unmarshal plan: ...\<close>\<close>
  | ErrorMarshalling string \<comment> \<open>\<^verbatim>\<open>error marshalling plan to yaml: ...\<close>\<close>
  | ErrorMakingFile string \<comment> \<open>\<^verbatim>\<open>error making plan file: ...\<close>\<close>

subsection \<open>Character classes of the two regular expressions\<close>

definition isLetter :: "char \<Rightarrow> bool" where
  \<comment> \<open>the class \<^verbatim>\<open>[a-zA-Z]\<close>\<close>
  "isLetter c = (let n = (of_char c :: nat) in (97 \<le> n \<and> n \<le> 122) \<or> (65 \<le> n \<and> n \<le> 90))"

definition isAlphaNumeric :: "char \<Rightarrow> bool" where
  \<comment> \<open>the class \<^verbatim>\<open>[a-zA-Z1-9]\<close>\<close>
  "isAlphaNumeric c = (isLetter c \<or> (let n = (of_char c :: nat) in 49 \<le> n \<and> n \<le> 57))"

definition isKeyChar :: "char \<Rightarrow> bool" where
  \<comment> \<open>the class \<^verbatim>\<open>[a-z_\-A-Z]\<close>\<close>
  "isKeyChar c = (isLetter c \<or> c = CHR ''_'' \<or> c = CHR ''-'')"

subsection \<open>generateAlphaNumericPassword\<close>

text \<open>
  \<^verbatim>\<open>regexp.MustCompile("^[a-zA-Z1-9]+$").MatchString(pass)\<close>: without the multi-line
  flag \<^verbatim>\<open>^\<close> and \<^verbatim>\<open>$\<close> are the two ends of the text, so the string matches when it
  is not empty and each of its characters is in the class.
\<close>

definition alphaNumericRE :: "string \<Rightarrow> bool" where
  "alphaNumericRE pass = (pass \<noteq> [] \<and> list_all isAlphaNumeric pass)"

text \<open>
  The loop of \<^verbatim>\<open>generateAlphaNumericPassword\<close>. The random requirements and the
  password library are the environment: \<open>NewPassword k\<close> is what the \<open>k\<close>-th call of
  \<^verbatim>\<open>garbler.NewPassword\<close> (counted from 0) returns, \<^term>\<open>Inl\<close> its error. The
  function returns the result together with the number of calls it made. The source's
  \<^verbatim>\<open>for { ... }\<close> has no loop condition, so the model is a partial function and
  \<^term>\<open>None\<close> stands for not returning.
\<close>

partial_function (option) passwordLoop ::
  "(nat \<Rightarrow> string + string) \<Rightarrow> nat \<Rightarrow> int \<Rightarrow> ((error + string) \<times> nat) option" where
  "passwordLoop NewPassword calls attempts =
     (case NewPassword calls of
        Inl err \<Rightarrow> Some (Inl (GarblerError err), Suc calls)
      | Inr pass \<Rightarrow>
          if alphaNumericRE pass then Some (Inr pass, Suc calls)
          else if attempts = 5 then Some (Inl FailedToGenerate, Suc calls)
          else passwordLoop NewPassword (Suc calls) (attempts + 1))"

declare passwordLoop.simps [code]

definition generateAlphaNumericPassword ::
  "(nat \<Rightarrow> string + string) \<Rightarrow> ((error + string) \<times> nat) option" where
  "generateAlphaNumericPassword NewPassword = passwordLoop NewPassword 0 0"


subsection \<open>The plan document\<close>

text \<open>
  Modelled from the spec: the struct declarations of the plan document (\<^verbatim>\<open>Plan\<close>,
  \<^verbatim>\<open>Cluster\<close>, \<^verbatim>\<open>AddOns\<close>, \<^verbatim>\<open>Node\<close>, ...) and the constant
  \<^verbatim>\<open>cniProviderCalico\<close> are declared in a file of the package that is not among the
  sources. The records have the fields that \<^verbatim>\<open>plan.go\<close> reads or writes, typed as its
  use of them requires: a field compared with \<^verbatim>\<open>nil\<close> is an option, one compared with
  \<^verbatim>\<open>""\<close> a string, one compared with \<^verbatim>\<open>0\<close> an integer. A node has the host name and
  the two addresses that the comment of \<^verbatim>\<open>etcd.nodes\<close> describes. The spec gives the
  provider constant as \<^verbatim>\<open>calico\<close>.
\<close>

record Node =
  Host :: string
  IP :: string
  InternalIP :: string

record NodeGroup =
  ExpectedCount :: int
  Nodes :: "Node list"

record NFSVolume =
  Host :: string
  Path :: string

record NFS =
  Volumes :: "NFSVolume list"

record SSHConfig =
  User :: string
  Key :: string
  Port :: int

record NetworkConfig =
  Type :: string
  PodCIDRBlock :: string
  ServiceCIDRBlock :: string
  UpdateHostsFiles :: bool

record CertsConfig =
  Expiry :: string
  CAExpiry :: string

record Cluster =
  Name :: string
  AdminPassword :: string
  DisablePackageInstallation :: bool
  AllowPackageInstallation :: "bool option"
  DisconnectedInstallation :: bool
  Networking :: NetworkConfig
  Certificates :: CertsConfig
  SSH :: SSHConfig

record DockerRegistry =
  Server :: string
  Address :: string
  Port :: int

record CalicoOptions =
  Mode :: string
  LogLevel :: string
  WorkloadMTU :: int
  FelixInputMTU :: int

record CNIOptions =
  Calico :: CalicoOptions

record CNI =
  Provider :: string
  Options :: CNIOptions

record DNS =
  Provider :: string

record HeapsterOptions =
  Replicas :: int
  ServiceType :: string
  Sink :: string

record InfluxDBOptions =
  PVCName :: string

record HeapsterMonitoringOptions =
  Heapster :: HeapsterOptions
  HeapsterReplicas :: int
  InfluxDB :: InfluxDBOptions
  InfluxDBPVCName :: string

record HeapsterMonitoring =
  Options :: HeapsterMonitoringOptions

record PackageManager =
  Disable :: bool
  Provider :: string

record Dashboard =
  Disable :: bool

record DeprecatedPackageManager =
  Enabled :: bool

record Features =
  PackageManager :: "DeprecatedPackageManager option"

record AddOns =
  CNI :: "CNI option"
  DNS :: DNS
  HeapsterMonitoring :: "HeapsterMonitoring option"
  Dashboard :: "Dashboard option"
  DashboardDeprecated :: "Dashboard option"
  PackageManager :: PackageManager

record Plan =
  Cluster :: Cluster
  DockerRegistry :: DockerRegistry
  AddOns :: AddOns
  Features :: "Features option"
  Etcd :: NodeGroup
  Master :: NodeGroup
  Worker :: NodeGroup
  Ingress :: NodeGroup
  Storage :: NodeGroup
  NFS :: NFS

record PlanTemplateOptions =
  EtcdNodes :: int
  MasterNodes :: int
  WorkerNodes :: int
  IngressNodes :: int
  StorageNodes :: int
  NFSVolumes :: int
  AdminPassword :: string

definition ket133PackageManagerProvider :: string where
  "ket133PackageManagerProvider = ''helm''"

definition defaultCAExpiry :: string where
  "defaultCAExpiry = ''17520h''"

definition cniProviderCalico :: string where
  "cniProviderCalico = ''calico''"

text \<open>The zero values \<^verbatim>\<open>Node{}\<close>, \<^verbatim>\<open>CNI{}\<close>, \<^verbatim>\<open>HeapsterMonitoring{}\<close>,
  \<^verbatim>\<open>Dashboard{}\<close> and \<^verbatim>\<open>Plan{}\<close>.\<close>

definition zeroNode :: Node where
  "zeroNode = \<lparr>Node.Host = [], IP = [], InternalIP = []\<rparr>"

definition zeroNodeGroup :: NodeGroup where
  "zeroNodeGroup = \<lparr>ExpectedCount = 0, Nodes = []\<rparr>"

definition zeroCNI :: CNI where
  "zeroCNI = \<lparr>CNI.Provider = [], CNI.Options =
     \<lparr>Calico = \<lparr>Mode = [], LogLevel = [], WorkloadMTU = 0, FelixInputMTU = 0\<rparr>\<rparr>\<rparr>"

definition zeroHeapsterMonitoring :: HeapsterMonitoring where
  "zeroHeapsterMonitoring = \<lparr>HeapsterMonitoring.Options =
     \<lparr>Heapster = \<lparr>Replicas = 0, ServiceType = [], Sink = []\<rparr>, HeapsterReplicas = 0,
      InfluxDB = \<lparr>PVCName = []\<rparr>, InfluxDBPVCName = []\<rparr>\<rparr>"

definition zeroDashboard :: Dashboard where
  "zeroDashboard = \<lparr>Dashboard.Disable = False\<rparr>"

definition zeroPlan :: Plan where
  "zeroPlan = \<lparr>
     Cluster = \<lparr>Name = [], Cluster.AdminPassword = [], DisablePackageInstallation = False,
       AllowPackageInstallation = None, DisconnectedInstallation = False,
       Networking = \<lparr>Type = [], PodCIDRBlock = [], ServiceCIDRBlock = [],
         UpdateHostsFiles = False\<rparr>,
       Certificates = \<lparr>Expiry = [], CAExpiry = []\<rparr>,
       SSH = \<lparr>User = [], Key = [], SSHConfig.Port = 0\<rparr>\<rparr>,
     DockerRegistry = \<lparr>Server = [], Address = [], DockerRegistry.Port = 0\<rparr>,
     AddOns = \<lparr>CNI = None, DNS = \<lparr>DNS.Provider = []\<rparr>, HeapsterMonitoring = None,
       Dashboard = None, DashboardDeprecated = None,
       AddOns.PackageManager = \<lparr>PackageManager.Disable = False, PackageManager.Provider = []\<rparr>\<rparr>,
     Features = None,
     Etcd = zeroNodeGroup, Master = zeroNodeGroup, Worker = zeroNodeGroup,
     Ingress = zeroNodeGroup, Storage = zeroNodeGroup,
     NFS = \<lparr>Volumes = []\<rparr>\<rparr>"

text \<open>
  An assignment through one of the pointers \<^verbatim>\<open>p.AddOns.CNI\<close> and
  \<^verbatim>\<open>p.AddOns.HeapsterMonitoring\<close> updates the struct it points to. Each such assignment
  of the source follows a store of a non-nil pointer or a nil check, so the nil case (a
  panic in Go) is never reached.
\<close>

definition onCNI :: "(CNI \<Rightarrow> CNI) \<Rightarrow> Plan \<Rightarrow> Plan" where
  "onCNI f = AddOns_update (CNI_update (map_option f))"

definition onCalico :: "(CalicoOptions \<Rightarrow> CalicoOptions) \<Rightarrow> Plan \<Rightarrow> Plan" where
  "onCalico f = onCNI (CNI.Options_update (Calico_update f))"

definition onHeapsterOptions ::
  "(HeapsterMonitoringOptions \<Rightarrow> HeapsterMonitoringOptions) \<Rightarrow> Plan \<Rightarrow> Plan" where
  "onHeapsterOptions f =
     AddOns_update (HeapsterMonitoring_update (map_option (HeapsterMonitoring.Options_update f)))"

subsection \<open>readDeprecatedFields\<close>

text \<open>\<^verbatim>\<open>fmt.Sprintf("%d", n)\<close>: the decimal digits of \<open>n\<close>, after a minus sign when it
  is negative.\<close>

fun showNat :: "nat \<Rightarrow> string" where
  "showNat n =
     (if n < 10 then [''0123456789'' ! n]
      else showNat (n div 10) @ [''0123456789'' ! (n mod 10)])"

declare showNat.simps [simp del]

definition showInt :: "int \<Rightarrow> string" where
  "showInt i = (if i < 0 then CHR ''-'' # showNat (nat (- i)) else showNat (nat i))"

definition readDeprecatedFields :: "Plan \<Rightarrow> Plan" where
  "readDeprecatedFields p =
    (let
       \<comment> \<open>package_manager moved from features: to add_ons: after KET v1.3.3\<close>
       p = (case Features p of
              Some f \<Rightarrow>
                (case Features.PackageManager f of
                   Some pm \<Rightarrow>
                     AddOns_update (AddOns.PackageManager_update
                       (\<lambda>a. a\<lparr>PackageManager.Disable := \<not> Enabled pm,
                               PackageManager.Provider := ket133PackageManagerProvider\<rparr>)) p
                 | None \<Rightarrow> p)
            | None \<Rightarrow> p);
       \<comment> \<open>allow_package_installation renamed to disable_package_installation\<close>
       p = Cluster_update
             (\<lambda>c. case AllowPackageInstallation c of
                     Some allow \<Rightarrow> c\<lparr>DisablePackageInstallation := \<not> allow\<rparr>
                   | None \<Rightarrow> c) p;
       \<comment> \<open>only read the deprecated dashboard field if the new one is not set\<close>
       p = AddOns_update
             (\<lambda>a. case DashboardDeprecated a of
                     Some d \<Rightarrow>
                       (if Dashboard a = None
                        then a\<lparr>Dashboard := Some \<lparr>Dashboard.Disable = Dashboard.Disable d\<rparr>\<rparr>
                        else a)
                   | None \<Rightarrow> a) p;
       p = DockerRegistry_update
             (\<lambda>r. if Server r = [] \<and> Address r \<noteq> [] \<and> DockerRegistry.Port r \<noteq> 0
                   then r\<lparr>Server := Address r @ '':'' @ showInt (DockerRegistry.Port r)\<rparr>
                   else r) p
     in p)"

subsection \<open>setDefaults\<close>

definition setDefaults :: "Plan \<Rightarrow> Plan" where
  "setDefaults p =
    (let
       p = (if CNI (AddOns p) = None
            then (let
                    q = AddOns_update (CNI_update (\<lambda>_. Some zeroCNI)) p;
                    q = onCNI (CNI.Provider_update (\<lambda>_. cniProviderCalico)) q;
                    q = onCalico (Mode_update (\<lambda>_. ''overlay'')) q;
                    q = onCalico (LogLevel_update (\<lambda>_. ''info'')) q;
                    \<comment> \<open>read KET <v1.5.0 plan option\<close>
                    q = (if Type (Networking (Cluster p)) \<noteq> []
                         then onCalico (Mode_update (\<lambda>_. Type (Networking (Cluster p)))) q
                         else q)
                  in q)
            else p);
       p = onCalico (LogLevel_update (\<lambda>l. if l = [] then ''info'' else l)) p;
       p = onCalico (FelixInputMTU_update (\<lambda>m. if m = 0 then 1440 else m)) p;
       p = onCalico (WorkloadMTU_update (\<lambda>m. if m = 0 then 1500 else m)) p;
       p = AddOns_update (DNS_update
             (DNS.Provider_update (\<lambda>d. if d = [] then ''kubedns'' else d))) p;
       p = AddOns_update (HeapsterMonitoring_update
             (\<lambda>h. case h of None \<Rightarrow> Some zeroHeapsterMonitoring | Some h' \<Rightarrow> Some h')) p;
       p = onHeapsterOptions (Heapster_update
             (Replicas_update (\<lambda>r. if r = 0 then 2 else r))) p;
       \<comment> \<open>read field from KET < v1.5.0\<close>
       p = onHeapsterOptions
             (\<lambda>opt. if HeapsterReplicas opt \<noteq> 0
                     then Heapster_update (Replicas_update (\<lambda>_. HeapsterReplicas opt)) opt
                     else opt) p;
       p = onHeapsterOptions (Heapster_update (Sink_update
             (\<lambda>s. if s = [] then ''influxdb:http://heapster-influxdb.kube-system.svc:8086''
                   else s))) p;
       p = onHeapsterOptions (Heapster_update (ServiceType_update
             (\<lambda>s. if s = [] then ''ClusterIP'' else s))) p;
       p = onHeapsterOptions
             (\<lambda>opt. if InfluxDBPVCName opt \<noteq> []
                     then InfluxDB_update (PVCName_update (\<lambda>_. InfluxDBPVCName opt)) opt
                     else opt) p;
       p = Cluster_update (Certificates_update
             (CAExpiry_update (\<lambda>e. if e = [] then defaultCAExpiry else e))) p;
       p = AddOns_update (Dashboard_update
             (\<lambda>d. case d of None \<Rightarrow> Some zeroDashboard | Some d' \<Rightarrow> Some d')) p
     in p)"

subsection \<open>FilePlanner.Read\<close>

text \<open>
  The file system and the YAML library are the environment: \<open>file\<close> is the result of
  \<^verbatim>\<open>ioutil.ReadFile(fp.File)\<close> and \<open>unmarshal\<close> the result of \<^verbatim>\<open>yaml.Unmarshal\<close> of
  the bytes read into a zero plan, \<^term>\<open>Inl\<close> the error of either.
\<close>

definition Read :: "string + string \<Rightarrow> (string \<Rightarrow> string + Plan) \<Rightarrow> error + Plan" where
  "Read file unmarshal =
     (case file of
        Inl err \<Rightarrow> Inl (CouldNotReadFile err)
      | Inr d \<Rightarrow>
          (case unmarshal d of
             Inl err \<Rightarrow> Inl (FailedToUnmarshal err)
           | Inr p \<Rightarrow> Inr (setDefaults (readDeprecatedFields p))))"

subsection \<open>buildPlanFromTemplateOptions\<close>

text \<open>The loop \<^verbatim>\<open>for i := 0; i < n; i++ { xs = append(xs, v) }\<close>, entered with
  counter \<open>i\<close>.\<close>

function appendLoop :: "int \<Rightarrow> int \<Rightarrow> 'a \<Rightarrow> 'a list \<Rightarrow> 'a list" where
  "appendLoop i n v xs = (if i < n then appendLoop (i + 1) n v (xs @ [v]) else xs)"
  by pat_completeness auto
termination
  by (relation "measure (\<lambda>(i, n, v, xs). nat (n - i))") auto

declare appendLoop.simps [simp del]

definition buildPlanFromTemplateOptions :: "PlanTemplateOptions \<Rightarrow> Plan" where
  "buildPlanFromTemplateOptions templateOpts =
    (let
       p = zeroPlan;
       p = Cluster_update (Name_update (\<lambda>_. ''kubernetes'')) p;
       p = Cluster_update (Cluster.AdminPassword_update
             (\<lambda>_. PlanTemplateOptions.AdminPassword templateOpts)) p;
       p = Cluster_update (DisablePackageInstallation_update (\<lambda>_. False)) p;
       p = Cluster_update (DisconnectedInstallation_update (\<lambda>_. False)) p;
       \<comment> \<open>Set SSH defaults\<close>
       p = Cluster_update (SSH_update (User_update (\<lambda>_. ''kismaticuser''))) p;
       p = Cluster_update (SSH_update (Key_update (\<lambda>_. ''kismaticuser.key''))) p;
       p = Cluster_update (SSH_update (SSHConfig.Port_update (\<lambda>_. 22))) p;
       \<comment> \<open>Set Networking defaults\<close>
       p = Cluster_update (Networking_update (PodCIDRBlock_update (\<lambda>_. ''172.16.0.0/16''))) p;
       p = Cluster_update (Networking_update
             (ServiceCIDRBlock_update (\<lambda>_. ''172.20.0.0/16''))) p;
       p = Cluster_update (Networking_update (UpdateHostsFiles_update (\<lambda>_. False))) p;
       \<comment> \<open>Set Certificate defaults\<close>
       p = Cluster_update (Certificates_update (Expiry_update (\<lambda>_. ''17520h''))) p;
       p = Cluster_update (Certificates_update (CAExpiry_update (\<lambda>_. defaultCAExpiry))) p;
       \<comment> \<open>CNI\<close>
       p = AddOns_update (CNI_update (\<lambda>_. Some zeroCNI)) p;
       p = onCNI (CNI.Provider_update (\<lambda>_. cniProviderCalico)) p;
       p = onCalico (Mode_update (\<lambda>_. ''overlay'')) p;
       p = onCalico (LogLevel_update (\<lambda>_. ''info'')) p;
       p = onCalico (WorkloadMTU_update (\<lambda>_. 1500)) p;
       p = onCalico (FelixInputMTU_update (\<lambda>_. 1440)) p;
       \<comment> \<open>DNS\<close>
       p = AddOns_update (DNS_update (DNS.Provider_update (\<lambda>_. ''kubedns''))) p;
       \<comment> \<open>Heapster\<close>
       p = AddOns_update (HeapsterMonitoring_update (\<lambda>_. Some zeroHeapsterMonitoring)) p;
       p = onHeapsterOptions (Heapster_update (Replicas_update (\<lambda>_. 2))) p;
       p = onHeapsterOptions (Heapster_update (ServiceType_update (\<lambda>_. ''ClusterIP''))) p;
       p = onHeapsterOptions (Heapster_update (Sink_update
             (\<lambda>_. ''influxdb:http://heapster-influxdb.kube-system.svc:8086''))) p;
       \<comment> \<open>Package Manager\<close>
       p = AddOns_update (AddOns.PackageManager_update
             (PackageManager.Provider_update (\<lambda>_. ''helm''))) p;
       p = AddOns_update (Dashboard_update (\<lambda>_. Some zeroDashboard)) p;
       p = AddOns_update (Dashboard_update
             (map_option (Dashboard.Disable_update (\<lambda>_. False)))) p;
       \<comment> \<open>Generate entries for all node types\<close>
       p = Etcd_update (ExpectedCount_update (\<lambda>_. EtcdNodes templateOpts)) p;
       p = Master_update (ExpectedCount_update (\<lambda>_. MasterNodes templateOpts)) p;
       p = Worker_update (ExpectedCount_update (\<lambda>_. WorkerNodes templateOpts)) p;
       p = Ingress_update (ExpectedCount_update (\<lambda>_. IngressNodes templateOpts)) p;
       p = Storage_update (ExpectedCount_update (\<lambda>_. StorageNodes templateOpts)) p;
       p = NFS_update (Volumes_update
             (appendLoop 0 (NFSVolumes templateOpts)
                \<lparr>NFSVolume.Host = [], Path = ''/''\<rparr>)) p;
       n = zeroNode;
       p = Etcd_update (\<lambda>g. g\<lparr>Nodes := appendLoop 0 (ExpectedCount g) n (Nodes g)\<rparr>) p;
       p = Master_update (\<lambda>g. g\<lparr>Nodes := appendLoop 0 (ExpectedCount g) n (Nodes g)\<rparr>) p;
       p = Worker_update (\<lambda>g. g\<lparr>Nodes := appendLoop 0 (ExpectedCount g) n (Nodes g)\<rparr>) p;
       p = Ingress_update
             (\<lambda>g. if ExpectedCount g > 0
                   then g\<lparr>Nodes := appendLoop 0 (ExpectedCount g) n (Nodes g)\<rparr> else g) p;
       p = Storage_update
             (\<lambda>g. if ExpectedCount g > 0
                   then g\<lparr>Nodes := appendLoop 0 (ExpectedCount g) n (Nodes g)\<rparr> else g) p
     in p)"


subsection \<open>The comment map\<close>

text \<open>The entries of \<^verbatim>\<open>commentMap\<close>, in the order of the source; the keys are distinct,
  so the Go map is \<open>map_of\<close> of the list.\<close>

definition commentMapEntries :: "(string \<times> string list) list" where
  "commentMapEntries = [
    (''cluster.admin_password'',
     [''This password is used to login to the Kubernetes Dashboard and can also be'',
      ''used for administration without a security certificate.'']),
    (''cluster.disable_package_installation'',
     [''Set to true if the nodes have the required packages installed.'']),
    (''cluster.disconnected_installation'',
     [''Set to true if you are performing a disconnected installation.'']),
    (''cluster.networking'',
     [''Networking configuration of your cluster.'']),
    (''cluster.networking.pod_cidr_block'',
     [''Kubernetes will assign pods IPs in this range. Do not use a range that is'',
      ''already in use on your local network!'']),
    (''cluster.networking.service_cidr_block'',
     [''Kubernetes will assign services IPs in this range. Do not use a range'',
      ''that is already in use by your local network or pod network!'']),
    (''cluster.networking.update_hosts_files'',
     [''Set to true if your nodes cannot resolve each others' names using DNS.'']),
    (''cluster.networking.http_proxy'',
     [''Set the proxy server to use for HTTP connections.'']),
    (''cluster.networking.https_proxy'',
     [''Set the proxy server to use for HTTPs connections.'']),
    (''cluster.networking.no_proxy'',
     [''List of host names and/or IPs that shouldn't go through any proxy.'',
      ''All nodes' 'host' and 'IPs' are always set.'']),
    (''cluster.certificates'',
     [''Generated certs configuration.'']),
    (''cluster.certificates.expiry'',
     [''Self-signed certificate expiration period in hours; default is 2 years.'']),
    (''cluster.certificates.ca_expiry'',
     [''CA certificate expiration period in hours; default is 2 years.'']),
    (''cluster.ssh'',
     [''SSH configuration for cluster nodes.'']),
    (''cluster.ssh.user'',
     [''This user must be able to sudo without password.'']),
    (''cluster.ssh.ssh_key'',
     [''Absolute path to the ssh private key we should use to manage nodes.'']),
    (''cluster.kube_apiserver'',
     [''Override configuration of Kubernetes components.'']),
    (''cluster.cloud_provider'',
     [''Kubernetes cloud provider integration'']),
    (''cluster.cloud_provider.provider'',
     [''Options: 'aws','azure','cloudstack','fake','gce','mesos','openstack','',
      '''ovirt','photon','rackspace','vsphere'.'',
      ''Leave empty for bare metal setups or other unsupported providers.'']),
    (''cluster.cloud_provider.config'',
     [''Path to the config file, leave empty if provider does not require it.'']),
    (''docker'',
     [''Docker daemon configuration of all cluster nodes'']),
    (''etcd'',
     [''Etcd nodes are the ones that run the etcd distributed key-value database.'']),
    (''etcd.nodes'',
     [''Provide the hostname and IP of each node. If the node has an IP for internal'',
      ''traffic, provide it in the internalip field. Otherwise, that field can be'',
      ''left blank.'']),
    (''master'',
     [''Master nodes are the ones that run the Kubernetes control plane components.'']),
    (''worker'',
     [''Worker nodes are the ones that will run your workloads on the cluster.'']),
    (''ingress'',
     [''Ingress nodes will run the ingress controllers.'']),
    (''storage'',
     [''Storage nodes will be used to create a distributed storage cluster that can'',
      ''be consumed by your workloads.'']),
    (''master.load_balanced_fqdn'',
     [''If you have set up load balancing for master nodes, enter the FQDN name here.'',
      ''Otherwise, use the IP address of a single master node.'']),
    (''master.load_balanced_short_name'',
     [''If you have set up load balancing for master nodes, enter the short name here.'',
      ''Otherwise, use the IP address of a single master node.'']),
    (''docker.storage.direct_lvm'',
     [''Configure devicemapper in direct-lvm mode (RHEL/CentOS only).'']),
    (''docker.storage.direct_lvm.block_device'',
     [''Path to the block device that will be used for direct-lvm mode. This'',
      ''device will be wiped and used exclusively by docker.'']),
    (''docker.storage.direct_lvm.enable_deferred_deletion'',
     [''Set to true if you want to enable deferred deletion when using'',
      ''direct-lvm mode.'']),
    (''docker_registry'',
     [''If you want to use an internal registry for the installation or upgrade, you'',
      ''must provide its information here. You must seed this registry before the'',
      ''installation or upgrade of your cluster. This registry must be accessible from'',
      ''all nodes on the cluster.'']),
    (''docker_registry.server'',
     [''IP or hostname and port for your registry.'']),
    (''docker_registry.CA'',
     [''Absolute path to the certificate authority that should be trusted when'',
      ''connecting to your registry.'']),
    (''docker_registry.username'',
     [''Leave blank for unauthenticated access.'']),
    (''docker_registry.password'',
     [''Leave blank for unauthenticated access.'']),
    (''add_ons'',
     [''Add-ons are additional components that KET installs on the cluster.'']),
    (''nfs'',
     [''A set of NFS volumes for use by on-cluster persistent workloads'']),
    (''nfs.nfs_host'',
     [''The host name or ip address of an NFS server.'']),
    (''nfs.mount_path'',
     [''The mount path of an NFS share. Must start with /'']),
    (''add_ons.cni.provider'',
     [''Selecting 'custom' will result in a CNI ready cluster, however it is up to'',
      ''you to configure a plugin after the install.'',
      ''Options: 'calico','weave','contiv','custom'.'']),
    (''add_ons.cni.options.calico.mode'',
     [''Options: 'overlay','routed'.'']),
    (''add_ons.cni.options.calico.log_level'',
     [''Options: 'warning','info','debug'.'']),
    (''add_ons.cni.options.calico.workload_mtu'',
     [''MTU for the workload interface, configures the CNI config.'']),
    (''add_ons.cni.options.calico.felix_input_mtu'',
     [''MTU for the tunnel device used if IPIP is enabled.'']),
    (''add_ons.dns.provider'',
     [''Options: 'kubedns','coredns'.'']),
    (''add_ons.heapster.options.influxdb.pvc_name'',
     [''Provide the name of the persistent volume claim that you will create'',
      ''after installation. If not specified, the data will be stored in'',
      ''ephemeral storage.'']),
    (''add_ons.heapster.options.heapster.service_type'',
     [''Specify kubernetes ServiceType. Defaults to 'ClusterIP'.'',
      ''Options: 'ClusterIP','NodePort','LoadBalancer','ExternalName'.'']),
    (''add_ons.heapster.options.heapster.sink'',
     [''Specify the sink to store heapster data. Defaults to an influxdb pod'',
      ''running on the cluster.'']),
    (''add_ons.package_manager.provider'',
     [(''Options: 'helm'' @ [CHR 0x27])]),
    (''add_ons.rescheduler'',
     [''The rescheduler ensures that critical add-ons remain running on the cluster.''])]"

definition commentMap :: "string \<rightharpoonup> string list" where
  "commentMap = map_of commentMapEntries"

subsection \<open>The key pattern yamlKeyRE\<close>

text \<open>
  \<^verbatim>\<open>yamlKeyRE.FindStringSubmatch(text)\<close> for the pattern
  \<^verbatim>\<open>[^a-zA-Z]*([a-z_\-A-Z]+)[ ]*:\<close>. Go returns the leftmost match and, among the matches
  that start there, the one a backtracking search finds first; the result is the pair of
  the whole match \<^verbatim>\<open>matched[0]\<close> and the group \<^verbatim>\<open>matched[1]\<close>, \<^term>\<open>None\<close> for
  \<^verbatim>\<open>nil\<close>.

  \<open>matchKey\<close> is the tail \<^verbatim>\<open>([a-z_\-A-Z]+)[ ]*:\<close> at the start of a string. The group must
  take the whole run of key characters and the blanks the whole run of spaces, since a
  key character is neither a space nor the colon, and a space is not the colon: giving
  a character back never helps. \<open>matchHere\<close> is the whole pattern at the start of a
  string: the greedy \<^verbatim>\<open>[^a-zA-Z]*\<close> first tries to take one more character and gives it
  back only when the rest does not match. \<open>FindStringSubmatch\<close> tries the start
  positions from left to right.
\<close>

definition matchKey :: "string \<Rightarrow> (string \<times> string) option" where
  "matchKey str =
     (let key = takeWhile isKeyChar str;
          rest = dropWhile isKeyChar str;
          blanks = takeWhile (\<lambda>c. c = CHR '' '') rest
      in case dropWhile (\<lambda>c. c = CHR '' '') rest of
           [] \<Rightarrow> None
         | c # _ \<Rightarrow>
             if key \<noteq> [] \<and> c = CHR '':'' then Some (key @ blanks @ '':'', key) else None)"

fun matchHere :: "string \<Rightarrow> (string \<times> string) option" where
  "matchHere [] = None"
| "matchHere (c # cs) =
     (if \<not> isLetter c
      then (case matchHere cs of
              Some (m, key) \<Rightarrow> Some (c # m, key)
            | None \<Rightarrow> matchKey (c # cs))
      else matchKey (c # cs))"

fun FindStringSubmatch :: "string \<Rightarrow> (string \<times> string) option" where
  "FindStringSubmatch [] = None"
| "FindStringSubmatch (c # cs) =
     (case matchHere (c # cs) of
        Some r \<Rightarrow> Some r
      | None \<Rightarrow> FindStringSubmatch cs)"

subsection \<open>The stack\<close>

text \<open>The slice \<^verbatim>\<open>s.s\<close> of the stack, its top at the end. The lock has no effect on a
  single-threaded write.\<close>

definition newStack :: "string list" where
  "newStack = []"

definition Push :: "string list \<Rightarrow> string \<Rightarrow> string list" where
  "Push st v = st @ [v]"

definition Pop :: "string list \<Rightarrow> error + (string \<times> string list)" where
  "Pop st = (if length st = 0 then Inl EmptyStack else Inr (last st, butlast st))"

subsection \<open>getCommentedLine\<close>

definition newline :: string where
  "newline = [CHR 0x0A]"

definition countLeadingSpace :: "string \<Rightarrow> nat" where
  "countLeadingSpace str = length (takeWhile (\<lambda>r. r = CHR '' '') str)"

definition getCommentedLine :: "string \<Rightarrow> string list \<Rightarrow> bool \<Rightarrow> string" where
  "getCommentedLine line commentLines addNewLine =
     (if addNewLine then newline else [])
     @ concat (map (\<lambda>c. replicate (countLeadingSpace line) CHR '' '' @ ''# '' @ c @ newline)
         commentLines)
     @ line @ newline"

subsection \<open>FilePlanner.Write\<close>

text \<open>
  The variables of the line scan: the stack, \<^verbatim>\<open>prevIndent\<close>,
  \<^verbatim>\<open>addNewLineBeforeComment\<close>, the working copy \<^verbatim>\<open>oneTimeComments\<close> of the comment
  map, and the text written to the file so far. The file is a buffer that takes every
  write: a failing \<^verbatim>\<open>WriteString\<close> is an event of the environment outside the model.
\<close>

record scanState =
  stack :: "string list"
  prevIndent :: int
  addNewLineBeforeComment :: bool
  oneTimeComments :: "string \<rightharpoonup> string list"
  fileText :: string

text \<open>\<^verbatim>\<open>strings.Join(s.s, ".")\<close> and \<^verbatim>\<open>strings.Count(matched[0], " ")\<close>.\<close>

fun Join :: "string list \<Rightarrow> string \<Rightarrow> string" where
  "Join [] sep = []"
| "Join [x] sep = x"
| "Join (x # y # ys) sep = x @ sep @ Join (y # ys) sep"

definition CountSpaces :: "string \<Rightarrow> int" where
  "CountSpaces str = int (length (filter (\<lambda>c. c = CHR '' '') str))"

text \<open>The loop \<^verbatim>\<open>for i := 0; i <= (prevIndent - indent); i++ { s.Pop() }\<close>, entered with
  counter \<open>i\<close> and bound \<open>n = prevIndent - indent\<close>; it returns at the first failing
  pop.\<close>

function popLoop :: "int \<Rightarrow> int \<Rightarrow> string list \<Rightarrow> error + string list" where
  "popLoop i n st =
     (if i \<le> n
      then (case Pop st of
              Inl err \<Rightarrow> Inl err
            | Inr (_, st') \<Rightarrow> popLoop (i + 1) n st')
      else Inr st)"
  by pat_completeness auto
termination
  by (relation "measure (\<lambda>(i, n, st). nat (n + 1 - i))") auto

declare popLoop.simps [simp del]

text \<open>The body of the loop over the lines, for the line \<open>text\<close>.\<close>

definition scanLine :: "scanState \<Rightarrow> string \<Rightarrow> error + scanState" where
  "scanLine st text =
     (case FindStringSubmatch text of
        Some (matched0, matched1) \<Rightarrow>
          (let indent = CountSpaces matched0 div 2;
               \<comment> \<open>add a new line if we are leaving a major indentation block\<close>
               st = (if indent < prevIndent st
                     then st\<lparr>fileText := fileText st @ newline, addNewLineBeforeComment := False\<rparr>
                     else st)
           in case (if indent \<le> prevIndent st
                    then popLoop 0 (prevIndent st - indent) (stack st)
                    else Inr (stack st)) of
                Inl err \<Rightarrow> Inl err
              | Inr popped \<Rightarrow>
                  (let st = st\<lparr>stack := Push popped matched1, prevIndent := indent\<rparr>
                   in case oneTimeComments st (Join (stack st) ''.'') of
                        Some thiscomment \<Rightarrow>
                          Inr (st\<lparr>fileText := fileText st
                                   @ getCommentedLine text thiscomment (addNewLineBeforeComment st),
                                 oneTimeComments := (oneTimeComments st)(matched1 := None),
                                 addNewLineBeforeComment := True\<rparr>)
                      | None \<Rightarrow>
                          Inr (st\<lparr>fileText := fileText st @ text @ newline,
                                 addNewLineBeforeComment := True\<rparr>)))
      | None \<Rightarrow>
          \<comment> \<open>we don't want to comment this line... just print it out\<close>
          Inr (st\<lparr>fileText := fileText st @ text @ newline, addNewLineBeforeComment := True\<rparr>))"

fun scanLines :: "scanState \<Rightarrow> string list \<Rightarrow> error + scanState" where
  "scanLines st [] = Inr st"
| "scanLines st (text # rest) =
     (case scanLine st text of
        Inl err \<Rightarrow> Inl err
      | Inr st' \<Rightarrow> scanLines st' rest)"

text \<open>
  \<^verbatim>\<open>Write\<close>. The YAML library, the scanner and the file system are the environment:
  \<open>marshalled\<close> is the result of \<^verbatim>\<open>yaml.Marshal(p)\<close>, as the lines that
  \<^verbatim>\<open>bufio.Scanner\<close> yields for its bytes, and \<open>createErr\<close> is the error of
  \<^verbatim>\<open>os.Create\<close>, if any. The result is the content of the file.
\<close>

definition startState :: scanState where
  "startState = \<lparr>stack = newStack, prevIndent = - 1, addNewLineBeforeComment = True,
     oneTimeComments = commentMap, fileText = []\<rparr>"

definition Write :: "string + string list \<Rightarrow> string option \<Rightarrow> error + string" where
  "Write marshalled createErr =
     (case marshalled of
        Inl marshalErr \<Rightarrow> Inl (ErrorMarshalling marshalErr)
      | Inr lines \<Rightarrow>
          (case createErr of
             Some err \<Rightarrow> Inl (ErrorMakingFile err)
           | None \<Rightarrow>
               (case scanLines startState lines of
                  Inl err \<Rightarrow> Inl err
                | Inr st \<Rightarrow> Inr (fileText st))))"

text \<open>The lines of a text, each ended by a line feed.\<close>

fun unlines :: "string list \<Rightarrow> string" where
  "unlines [] = []"
| "unlines (l # ls) = l @ newline @ unlines ls"

subsection \<open>Selectors through the pointers, and example documents\<close>

definition heapsterOptions :: "Plan \<Rightarrow> HeapsterMonitoringOptions option" where
  "heapsterOptions p = map_option HeapsterMonitoring.Options (HeapsterMonitoring (AddOns p))"

definition calicoOptions :: "Plan \<Rightarrow> CalicoOptions option" where
  "calicoOptions p = map_option (\<lambda>c. Calico (CNI.Options c)) (CNI (AddOns p))"

text \<open>A document that sets both the structured heapster fields and the flat fields of
  KET before v1.5.0.\<close>

definition legacyHeapsterPlan :: Plan where
  "legacyHeapsterPlan =
     AddOns_update (HeapsterMonitoring_update (\<lambda>_. Some \<lparr>HeapsterMonitoring.Options =
       \<lparr>Heapster = \<lparr>Replicas = 3, ServiceType = ''NodePort'', Sink = ''log''\<rparr>,
        HeapsterReplicas = 5, InfluxDB = \<lparr>PVCName = ''new-claim''\<rparr>,
        InfluxDBPVCName = ''old-claim''\<rparr>\<rparr>)) zeroPlan"

text \<open>A document that sets every field the default resolver looks at, and no legacy
  field.\<close>

definition customisedPlan :: Plan where
  "customisedPlan =
     (AddOns_update (\<lambda>a. a\<lparr>
        CNI := Some \<lparr>CNI.Provider = ''weave'', CNI.Options = \<lparr>Calico =
          \<lparr>Mode = ''routed'', LogLevel = ''debug'', WorkloadMTU = 1400, FelixInputMTU = 1300\<rparr>\<rparr>\<rparr>,
        DNS := \<lparr>DNS.Provider = ''coredns''\<rparr>,
        HeapsterMonitoring := Some \<lparr>HeapsterMonitoring.Options =
          \<lparr>Heapster = \<lparr>Replicas = 3, ServiceType = ''NodePort'', Sink = ''log''\<rparr>,
           HeapsterReplicas = 0, InfluxDB = \<lparr>PVCName = ''new-claim''\<rparr>,
           InfluxDBPVCName = []\<rparr>\<rparr>,
        Dashboard := Some \<lparr>Dashboard.Disable = True\<rparr>\<rparr>)
      \<circ> Cluster_update (Certificates_update (CAExpiry_update (\<lambda>_. ''100h'')))) zeroPlan"

text \<open>A document of the schema of KET v1.3.3 that disables the package manager in the
  deprecated block and, separately, sets the current flag to false.\<close>

definition oldSchemaPlan :: Plan where
  "oldSchemaPlan =
     (Features_update (\<lambda>_. Some \<lparr>Features.PackageManager = Some \<lparr>Enabled = False\<rparr>\<rparr>)
      \<circ> AddOns_update (AddOns.PackageManager_update
          (\<lambda>_. \<lparr>PackageManager.Disable = False, PackageManager.Provider = ''other''\<rparr>))) zeroPlan"

text \<open>The lines that the marshalled text of a plan with two NFS volumes, such as the
  template built for \<^verbatim>\<open>NFSVolumes = 2\<close>, has for its \<^verbatim>\<open>nfs\<close> block.\<close>

definition twoVolumeLines :: "string list" where
  "twoVolumeLines =
     [''nfs:'',
      ''  nfs_volume:'',
      ''  - nfs_host: '' @ [CHR 0x22, CHR 0x22],
      ''    mount_path: /'',
      ''  - nfs_host: '' @ [CHR 0x22, CHR 0x22],
      ''    mount_path: /'']"

section \<open>Properties\<close>

subsection \<open>Password generation\<close>

lemma isAlphaNumeric_iff:
  "isAlphaNumeric c \<longleftrightarrow>
     c \<in> set ''abcdefghijklmnopqrstuvwxyzABCDEFGHIJKLMNOPQRSTUVWXYZ123456789''"
  by (cases c) (simp add: isAlphaNumeric_def isLetter_def Let_def)

lemma passwordLoop_returns:
  "0 \<le> a \<Longrightarrow> a \<le> 5 \<Longrightarrow> nat (5 - a) = d \<Longrightarrow>
     \<exists>r n. passwordLoop g c a = Some (r, n) \<and> c < n \<and> n \<le> c + d + 1"
proof (induction d arbitrary: a c)
  case 0
  then have "a = 5" by simp
  then show ?case
    by (simp add: passwordLoop.simps [of g c 5] split: sum.split)
next
  case (Suc d)
  then have a: "a \<noteq> 5" "0 \<le> a + 1" "a + 1 \<le> 5" "nat (5 - (a + 1)) = d" by auto
  from Suc.IH [OF a(2,3,4), of "Suc c"] obtain r n
    where "passwordLoop g (Suc c) (a + 1) = Some (r, n)" "Suc c < n" "n \<le> Suc c + d + 1"
    by blast
  with a(1) show ?case
    by (simp add: passwordLoop.simps [of g c a] split: sum.split)
qed

lemma passwordLoop_success:
  "0 \<le> a \<Longrightarrow> a \<le> 5 \<Longrightarrow> nat (5 - a) = d \<Longrightarrow> passwordLoop g c a = Some (Inr pass, n) \<Longrightarrow>
     0 < n \<and> g (n - 1) = Inr pass \<and> alphaNumericRE pass"
proof (induction d arbitrary: a c)
  case 0
  then have "a = 5" by simp
  with "0.prems"(4) show ?case
    by (auto simp add: passwordLoop.simps [of g c 5] split: sum.splits if_splits)
next
  case (Suc d)
  then have a: "a \<noteq> 5" "0 \<le> a + 1" "a + 1 \<le> 5" "nat (5 - (a + 1)) = d" by auto
  note IH = Suc.IH [OF a(2,3,4), of "Suc c"]
  from Suc.prems(4) a(1) IH show ?case
    by (auto simp add: passwordLoop.simps [of g c a] split: sum.splits if_splits)
qed

lemma passwordLoop_exhausted:
  "0 \<le> a \<Longrightarrow> a \<le> 5 \<Longrightarrow> nat (5 - a) = d \<Longrightarrow>
   \<forall>k. c \<le> k \<and> k \<le> c + d \<longrightarrow> (\<exists>s. g k = Inr s \<and> \<not> alphaNumericRE s) \<Longrightarrow>
     passwordLoop g c a = Some (Inl FailedToGenerate, c + d + 1)"
proof (induction d arbitrary: a c)
  case 0
  then have "a = 5" by simp
  moreover from "0.prems"(4) obtain s where "g c = Inr s" "\<not> alphaNumericRE s" by auto
  ultimately show ?case
    by (simp add: passwordLoop.simps [of g c 5])
next
  case (Suc d)
  then have a: "a \<noteq> 5" "0 \<le> a + 1" "a + 1 \<le> 5" "nat (5 - (a + 1)) = d" by auto
  from Suc.prems(4) obtain s where s: "g c = Inr s" "\<not> alphaNumericRE s" by auto
  from Suc.prems(4) have "\<forall>k. Suc c \<le> k \<and> k \<le> Suc c + d \<longrightarrow> (\<exists>s. g k = Inr s \<and> \<not> alphaNumericRE s)"
    by auto
  from Suc.IH [OF a(2,3,4) this] a(1) s show ?case
    by (simp add: passwordLoop.simps [of g c a])
qed

text \<open>
  C4: \<^verbatim>\<open>generateAlphaNumericPassword\<close> is a bounded retry loop. Whatever the candidate
  generator returns, the function returns, after at least one and at most 6 calls of the
  generator; when none of the first 6 candidates matches the alphanumeric pattern it
  returns the definite error after exactly 6 calls; and a password is returned only when
  the last candidate generated, one of the first 6, passed the validation.
\<close>

theorem generateAlphaNumericPassword_bounded:
  "(\<exists>r n. generateAlphaNumericPassword NewPassword = Some (r, n) \<and> 0 < n \<and> n \<le> 6)
   \<and> ((\<forall>k<6. \<exists>s. NewPassword k = Inr s \<and> \<not> alphaNumericRE s) \<longrightarrow>
        generateAlphaNumericPassword NewPassword = Some (Inl FailedToGenerate, 6))
   \<and> (\<forall>pass n. generateAlphaNumericPassword NewPassword = Some (Inr pass, n) \<longrightarrow>
        0 < n \<and> n \<le> 6 \<and> NewPassword (n - 1) = Inr pass \<and> alphaNumericRE pass)"
proof (intro conjI allI impI)
  show r: "\<exists>r n. generateAlphaNumericPassword NewPassword = Some (r, n) \<and> 0 < n \<and> n \<le> 6"
    using passwordLoop_returns [of 0 5 NewPassword 0]
    by (simp add: generateAlphaNumericPassword_def)
  {
    assume "\<forall>k<6. \<exists>s. NewPassword k = Inr s \<and> \<not> alphaNumericRE s"
    then have "\<forall>k. 0 \<le> k \<and> k \<le> 0 + 5 \<longrightarrow> (\<exists>s. NewPassword k = Inr s \<and> \<not> alphaNumericRE s)"
      by auto
    from passwordLoop_exhausted [OF _ _ _ this, of 0]
    show "generateAlphaNumericPassword NewPassword = Some (Inl FailedToGenerate, 6)"
      by (simp add: generateAlphaNumericPassword_def)
  }
  fix pass n
  assume p: "generateAlphaNumericPassword NewPassword = Some (Inr pass, n)"
  with r show "n \<le> 6" by auto
  from p passwordLoop_success [of 0 5 NewPassword 0 pass n]
  show "0 < n" "NewPassword (n - 1) = Inr pass" "alphaNumericRE pass"
    by (simp_all add: generateAlphaNumericPassword_def)
qed

theorem generateAlphaNumericPassword_bounded_witness:
  "generateAlphaNumericPassword (\<lambda>k. Inr ''p@ssw0rd with spaces'') = Some (Inl FailedToGenerate, 6)
   \<and> generateAlphaNumericPassword (\<lambda>k. if k = 5 then Inr ''Abc123xyz'' else Inr ''n0'')
       = Some (Inr ''Abc123xyz'', 6)"
proof -
  let ?g = "\<lambda>k::nat. Inr ''p@ssw0rd with spaces'' :: string + string"
  let ?h = "\<lambda>k::nat. if k = 5 then Inr ''Abc123xyz'' else (Inr ''n0'' :: string + string)"
  have bad: "\<not> alphaNumericRE ''p@ssw0rd with spaces''"
    by (simp add: alphaNumericRE_def isAlphaNumeric_iff)
  then have "\<forall>k<6. \<exists>s. ?g k = Inr s \<and> \<not> alphaNumericRE s" by simp
  with generateAlphaNumericPassword_bounded [of ?g]
  have 1: "generateAlphaNumericPassword ?g = Some (Inl FailedToGenerate, 6)" by blast
  have 2: "generateAlphaNumericPassword ?h = Some (Inr ''Abc123xyz'', 6)"
    by (simp add: generateAlphaNumericPassword_def passwordLoop.simps alphaNumericRE_def isAlphaNumeric_iff)
  from generateAlphaNumericPassword_bounded [of ?h] 2
  have "alphaNumericRE ''Abc123xyz''" by blast
  with 1 2 show ?thesis by simp
qed

text \<open>
  C10: every password returned by \<^verbatim>\<open>generateAlphaNumericPassword\<close> matches
  \<^verbatim>\<open>^[a-zA-Z1-9]+$\<close>: it is not empty, consists of ASCII letters and the digits 1 to 9
  only, and so contains neither the digit 0 nor a punctuation character or a space.
\<close>

theorem generateAlphaNumericPassword_alphanumeric:
  "generateAlphaNumericPassword NewPassword = Some (Inr pass, n) \<Longrightarrow>
     pass \<noteq> [] \<and>
     set pass \<subseteq> set ''abcdefghijklmnopqrstuvwxyzABCDEFGHIJKLMNOPQRSTUVWXYZ123456789'' \<and>
     CHR ''0'' \<notin> set pass \<and>
     set pass \<inter> set (''!#$%&()*+,-./:;<=>?@[]^_{|}~ '' @ [CHR 0x22, CHR 0x27, CHR 0x5C, CHR 0x60]) = {}"
proof -
  assume "generateAlphaNumericPassword NewPassword = Some (Inr pass, n)"
  with passwordLoop_success [of 0 5 NewPassword 0 pass n]
  have "alphaNumericRE pass" by (simp add: generateAlphaNumericPassword_def)
  then have ne: "pass \<noteq> []" and "\<forall>c\<in>set pass. isAlphaNumeric c"
    by (simp_all add: alphaNumericRE_def list_all_iff)
  then have sub: "set pass \<subseteq> set ''abcdefghijklmnopqrstuvwxyzABCDEFGHIJKLMNOPQRSTUVWXYZ123456789''"
    unfolding isAlphaNumeric_iff by blast
  have "CHR ''0'' \<notin> set ''abcdefghijklmnopqrstuvwxyzABCDEFGHIJKLMNOPQRSTUVWXYZ123456789''"
    by simp
  with sub have z: "CHR ''0'' \<notin> set pass" by blast
  have "set ''abcdefghijklmnopqrstuvwxyzABCDEFGHIJKLMNOPQRSTUVWXYZ123456789'' \<inter>
        set (''!#$%&()*+,-./:;<=>?@[]^_{|}~ '' @ [CHR 0x22, CHR 0x27, CHR 0x5C, CHR 0x60]) = {}"
    by simp
  with sub have "set pass \<inter> set (''!#$%&()*+,-./:;<=>?@[]^_{|}~ '' @ [CHR 0x22, CHR 0x27, CHR 0x5C, CHR 0x60]) = {}" by blast
  with ne sub z show ?thesis by blast
qed

theorem generateAlphaNumericPassword_alphanumeric_witness:
  "generateAlphaNumericPassword (\<lambda>k. if k = 2 then Inr ''Q7xK2mPz9Lw4Rt6B'' else Inr ''has0zero'')
     = Some (Inr ''Q7xK2mPz9Lw4Rt6B'', 3)
   \<and> CHR ''0'' \<notin> set ''Q7xK2mPz9Lw4Rt6B''"
proof -
  let ?g = "\<lambda>k::nat. if k = 2 then Inr ''Q7xK2mPz9Lw4Rt6B'' else (Inr ''has0zero'' :: string + string)"
  have r: "generateAlphaNumericPassword ?g = Some (Inr ''Q7xK2mPz9Lw4Rt6B'', 3)"
    by (simp add: generateAlphaNumericPassword_def passwordLoop.simps alphaNumericRE_def isAlphaNumeric_iff)
  from generateAlphaNumericPassword_alphanumeric [OF r] r show ?thesis by blast
qed


subsection \<open>The template builder\<close>

lemma appendLoop_replicate:
  "appendLoop i n v xs = xs @ replicate (nat (n - i)) v"
proof (induction i n v xs rule: appendLoop.induct)
  case (1 i n v xs)
  show ?case
  proof (cases "i < n")
    case True
    then have "nat (n - i) = Suc (nat (n - (i + 1)))" by simp
    with True "1.IH" show ?thesis
      by (simp add: appendLoop.simps [of i n])
  next
    case False
    then show ?thesis by (simp add: appendLoop.simps [of i n])
  qed
qed

text \<open>
  C5: for non-negative role counts and volume count, the plan built from the template
  options has node lists of exactly the requested lengths and as many NFS volumes as
  requested; each node is the empty placeholder and each volume has an empty host and the
  mount path \<^verbatim>\<open>/\<close>.
\<close>

theorem buildPlanFromTemplateOptions_counts:
  assumes "0 \<le> EtcdNodes t" "0 \<le> MasterNodes t" "0 \<le> WorkerNodes t"
    "0 \<le> IngressNodes t" "0 \<le> StorageNodes t" "0 \<le> NFSVolumes t"
  shows "int (length (Nodes (Etcd (buildPlanFromTemplateOptions t)))) = EtcdNodes t
     \<and> int (length (Nodes (Master (buildPlanFromTemplateOptions t)))) = MasterNodes t
     \<and> int (length (Nodes (Worker (buildPlanFromTemplateOptions t)))) = WorkerNodes t
     \<and> int (length (Nodes (Ingress (buildPlanFromTemplateOptions t)))) = IngressNodes t
     \<and> int (length (Nodes (Storage (buildPlanFromTemplateOptions t)))) = StorageNodes t
     \<and> int (length (Volumes (NFS (buildPlanFromTemplateOptions t)))) = NFSVolumes t
     \<and> (\<forall>g \<in> set [Etcd, Master, Worker, Ingress, Storage].
          \<forall>n \<in> set (Nodes (g (buildPlanFromTemplateOptions t))).
            n = \<lparr>Node.Host = [], IP = [], InternalIP = []\<rparr>)
     \<and> (\<forall>vol \<in> set (Volumes (NFS (buildPlanFromTemplateOptions t))).
          vol = \<lparr>NFSVolume.Host = [], Path = ''/''\<rparr>)"
  using assms
  by (simp add: buildPlanFromTemplateOptions_def Let_def appendLoop_replicate zeroPlan_def
      zeroNodeGroup_def zeroNode_def onCNI_def onCalico_def onHeapsterOptions_def)

theorem buildPlanFromTemplateOptions_counts_witness:
  "(let p = buildPlanFromTemplateOptions
     \<lparr>EtcdNodes = 3, MasterNodes = 1, WorkerNodes = 2, IngressNodes = 0, StorageNodes = 0,
      NFSVolumes = 1, AdminPassword = ''secret''\<rparr>
    in length (Nodes (Etcd p)) = 3 \<and> length (Nodes (Master p)) = 1 \<and> length (Nodes (Worker p)) = 2
       \<and> Nodes (Ingress p) = [] \<and> Nodes (Storage p) = []
       \<and> Volumes (NFS p) = [\<lparr>NFSVolume.Host = [], Path = ''/''\<rparr>])"
  using buildPlanFromTemplateOptions_counts [of "\<lparr>EtcdNodes = 3, MasterNodes = 1, WorkerNodes = 2,
      IngressNodes = 0, StorageNodes = 0, NFSVolumes = 1, AdminPassword = ''secret''\<rparr>"]
  by (auto simp add: Let_def length_Suc_conv)

subsection \<open>Migration and defaults\<close>

lemmas plan_defs = setDefaults_def Let_def onCNI_def onCalico_def onHeapsterOptions_def
  heapsterOptions_def calicoOptions_def

lemma setDefaults_outside:
  "Features (setDefaults p) = Features p \<and> DockerRegistry (setDefaults p) = DockerRegistry p
   \<and> Etcd (setDefaults p) = Etcd p \<and> Master (setDefaults p) = Master p
   \<and> Worker (setDefaults p) = Worker p \<and> Ingress (setDefaults p) = Ingress p
   \<and> Storage (setDefaults p) = Storage p \<and> NFS (setDefaults p) = NFS p
   \<and> DashboardDeprecated (AddOns (setDefaults p)) = DashboardDeprecated (AddOns p)
   \<and> AddOns.PackageManager (AddOns (setDefaults p)) = AddOns.PackageManager (AddOns p)"
  by (simp add: plan_defs)


lemma readDeprecatedFields_PackageManager:
  "AddOns.PackageManager (AddOns (readDeprecatedFields p)) =
     (case Features p of
        None \<Rightarrow> AddOns.PackageManager (AddOns p)
      | Some f \<Rightarrow>
          (case Features.PackageManager f of
             None \<Rightarrow> AddOns.PackageManager (AddOns p)
           | Some pm \<Rightarrow>
               (AddOns.PackageManager (AddOns p))
                 \<lparr>PackageManager.Disable := \<not> Enabled pm, PackageManager.Provider := ''helm''\<rparr>))"
  by (simp add: readDeprecatedFields_def Let_def ket133PackageManagerProvider_def
      split: option.split)

text \<open>
  C1: when the deprecated \<^verbatim>\<open>features.package_manager\<close> block is present with
  \<^verbatim>\<open>enabled = false\<close>, the migration sets the disable flag of
  \<^verbatim>\<open>add_ons.package_manager\<close> to true and its provider to \<^verbatim>\<open>helm\<close>, whatever the
  two fields held before, and a successful \<^verbatim>\<open>Read\<close> of such a document returns them so.
\<close>

theorem readDeprecatedFields_package_manager:
  assumes "Features p = Some f" and "Features.PackageManager f = Some pm" and "\<not> Enabled pm"
  shows "PackageManager.Disable (AddOns.PackageManager (AddOns (readDeprecatedFields p))) = True
     \<and> PackageManager.Provider (AddOns.PackageManager (AddOns (readDeprecatedFields p))) = ''helm''
     \<and> (\<forall>d unmarshal. unmarshal d = Inr p \<longrightarrow>
          (\<exists>p'. Read (Inr d) unmarshal = Inr p'
             \<and> PackageManager.Disable (AddOns.PackageManager (AddOns p')) = True
             \<and> PackageManager.Provider (AddOns.PackageManager (AddOns p')) = ''helm''))"
  using assms
  by (simp add: Read_def setDefaults_outside readDeprecatedFields_PackageManager)

theorem readDeprecatedFields_package_manager_witness:
  "PackageManager.Disable (AddOns.PackageManager (AddOns oldSchemaPlan)) = False
   \<and> PackageManager.Disable (AddOns.PackageManager (AddOns (readDeprecatedFields oldSchemaPlan)))
       = True
   \<and> PackageManager.Provider (AddOns.PackageManager (AddOns (readDeprecatedFields oldSchemaPlan)))
       = ''helm''
   \<and> (\<exists>p'. Read (Inr ''text'') (\<lambda>_. Inr oldSchemaPlan) = Inr p'
         \<and> PackageManager.Disable (AddOns.PackageManager (AddOns p')) = True
         \<and> PackageManager.Provider (AddOns.PackageManager (AddOns p')) = ''helm'')"
proof -
  have f: "Features oldSchemaPlan = Some \<lparr>Features.PackageManager = Some \<lparr>Enabled = False\<rparr>\<rparr>"
    by (simp add: oldSchemaPlan_def)
  have "PackageManager.Disable (AddOns.PackageManager (AddOns oldSchemaPlan)) = False"
    by (simp add: oldSchemaPlan_def zeroPlan_def)
  with readDeprecatedFields_package_manager [OF f, of "\<lparr>Enabled = False\<rparr>"]
  show ?thesis by simp
qed

text \<open>
  C3, as stated, fails: a non-zero legacy flat heapster-replicas field replaces structured
  replicas that are already set, and a non-empty legacy flat influxdb PVC name replaces a
  structured PVC name that is already set.
\<close>

theorem setDefaults_overwrites_counterexample:
  "map_option (Replicas \<circ> Heapster) (heapsterOptions legacyHeapsterPlan) = Some 3
   \<and> map_option (Replicas \<circ> Heapster) (heapsterOptions (setDefaults legacyHeapsterPlan)) = Some 5
   \<and> map_option (PVCName \<circ> InfluxDB) (heapsterOptions legacyHeapsterPlan) = Some ''new-claim''
   \<and> map_option (PVCName \<circ> InfluxDB) (heapsterOptions (setDefaults legacyHeapsterPlan))
        = Some ''old-claim''"
  by (simp add: plan_defs legacyHeapsterPlan_def zeroPlan_def)

text \<open>
  C3, amended: \<^verbatim>\<open>setDefaults\<close> changes no field that already carries a value, except
  that a non-zero legacy flat heapster-replicas field is copied over the structured
  replicas and a non-empty legacy flat influxdb PVC name over the structured PVC name.
  Fields outside the defaulted ones are unchanged; a present CNI, heapster or dashboard
  block stays present and keeps each of its fields that is set.
\<close>

theorem setDefaults_fills_unset_only:
  "Features (setDefaults p) = Features p \<and> DockerRegistry (setDefaults p) = DockerRegistry p
   \<and> Etcd (setDefaults p) = Etcd p \<and> Master (setDefaults p) = Master p
   \<and> Worker (setDefaults p) = Worker p \<and> Ingress (setDefaults p) = Ingress p
   \<and> Storage (setDefaults p) = Storage p \<and> NFS (setDefaults p) = NFS p
   \<and> DashboardDeprecated (AddOns (setDefaults p)) = DashboardDeprecated (AddOns p)
   \<and> AddOns.PackageManager (AddOns (setDefaults p)) = AddOns.PackageManager (AddOns p)
   \<and> Name (Cluster (setDefaults p)) = Name (Cluster p)
   \<and> Cluster.AdminPassword (Cluster (setDefaults p)) = Cluster.AdminPassword (Cluster p)
   \<and> DisablePackageInstallation (Cluster (setDefaults p)) = DisablePackageInstallation (Cluster p)
   \<and> AllowPackageInstallation (Cluster (setDefaults p)) = AllowPackageInstallation (Cluster p)
   \<and> DisconnectedInstallation (Cluster (setDefaults p)) = DisconnectedInstallation (Cluster p)
   \<and> Networking (Cluster (setDefaults p)) = Networking (Cluster p)
   \<and> SSH (Cluster (setDefaults p)) = SSH (Cluster p)
   \<and> Expiry (Certificates (Cluster (setDefaults p))) = Expiry (Certificates (Cluster p))
   \<and> (CAExpiry (Certificates (Cluster p)) \<noteq> [] \<longrightarrow> Cluster (setDefaults p) = Cluster p)
   \<and> (DNS.Provider (DNS (AddOns p)) \<noteq> [] \<longrightarrow> DNS (AddOns (setDefaults p)) = DNS (AddOns p))
   \<and> (\<forall>d. Dashboard (AddOns p) = Some d \<longrightarrow> Dashboard (AddOns (setDefaults p)) = Some d)
   \<and> (\<forall>c. CNI (AddOns p) = Some c \<longrightarrow>
        (\<exists>c'. CNI (AddOns (setDefaults p)) = Some c'
           \<and> CNI.Provider c' = CNI.Provider c
           \<and> Mode (Calico (CNI.Options c')) = Mode (Calico (CNI.Options c))
           \<and> (LogLevel (Calico (CNI.Options c)) \<noteq> [] \<longrightarrow>
                LogLevel (Calico (CNI.Options c')) = LogLevel (Calico (CNI.Options c)))
           \<and> (WorkloadMTU (Calico (CNI.Options c)) \<noteq> 0 \<longrightarrow>
                WorkloadMTU (Calico (CNI.Options c')) = WorkloadMTU (Calico (CNI.Options c)))
           \<and> (FelixInputMTU (Calico (CNI.Options c)) \<noteq> 0 \<longrightarrow>
                FelixInputMTU (Calico (CNI.Options c')) = FelixInputMTU (Calico (CNI.Options c)))))
   \<and> (\<forall>h. heapsterOptions p = Some h \<longrightarrow>
        (\<exists>h'. heapsterOptions (setDefaults p) = Some h'
           \<and> HeapsterReplicas h' = HeapsterReplicas h
           \<and> InfluxDBPVCName h' = InfluxDBPVCName h
           \<and> (Sink (Heapster h) \<noteq> [] \<longrightarrow> Sink (Heapster h') = Sink (Heapster h))
           \<and> (ServiceType (Heapster h) \<noteq> [] \<longrightarrow>
                ServiceType (Heapster h') = ServiceType (Heapster h))
           \<and> (HeapsterReplicas h = 0 \<and> Replicas (Heapster h) \<noteq> 0 \<longrightarrow>
                Replicas (Heapster h') = Replicas (Heapster h))
           \<and> (HeapsterReplicas h \<noteq> 0 \<longrightarrow> Replicas (Heapster h') = HeapsterReplicas h)
           \<and> (InfluxDBPVCName h = [] \<longrightarrow> InfluxDB h' = InfluxDB h)
           \<and> (InfluxDBPVCName h \<noteq> [] \<longrightarrow> PVCName (InfluxDB h') = InfluxDBPVCName h)))"
  by (cases "CNI (AddOns p)"; cases "HeapsterMonitoring (AddOns p)"; cases "Dashboard (AddOns p)")
     (simp_all add: plan_defs)

theorem setDefaults_fills_unset_only_witness:
  "Dashboard (AddOns (setDefaults customisedPlan)) = Some \<lparr>Dashboard.Disable = True\<rparr>
   \<and> DNS (AddOns (setDefaults customisedPlan)) = \<lparr>DNS.Provider = ''coredns''\<rparr>
   \<and> CAExpiry (Certificates (Cluster (setDefaults customisedPlan))) = ''100h''
   \<and> map_option (\<lambda>c. LogLevel (Calico (CNI.Options c))) (CNI (AddOns (setDefaults customisedPlan)))
        = Some ''debug''
   \<and> map_option (Replicas \<circ> Heapster) (heapsterOptions (setDefaults customisedPlan)) = Some 3
   \<and> map_option (Replicas \<circ> Heapster) (heapsterOptions (setDefaults legacyHeapsterPlan)) = Some 5"
  using setDefaults_fills_unset_only [of customisedPlan]
    setDefaults_fills_unset_only [of legacyHeapsterPlan]
  by (auto simp add: customisedPlan_def legacyHeapsterPlan_def zeroPlan_def heapsterOptions_def)

text \<open>
  C8: the plan that a successful \<^verbatim>\<open>Read\<close> returns and the plan that the template
  builder returns both have a CNI block.
\<close>

theorem cni_always_present:
  "(\<forall>p. Read fileBytes unmarshal = Inr p \<longrightarrow> CNI (AddOns p) \<noteq> None)
   \<and> CNI (AddOns (buildPlanFromTemplateOptions templateOpts)) \<noteq> None"
  by (auto simp add: Read_def plan_defs buildPlanFromTemplateOptions_def zeroPlan_def
      split: sum.splits)

theorem cni_always_present_witness:
  "(\<exists>p. Read (Inr ''{}'') (\<lambda>_. Inr zeroPlan) = Inr p \<and> CNI (AddOns zeroPlan) = None
        \<and> CNI (AddOns p) \<noteq> None)
   \<and> CNI (AddOns (buildPlanFromTemplateOptions \<lparr>EtcdNodes = 3, MasterNodes = 1, WorkerNodes = 2,
        IngressNodes = 0, StorageNodes = 0, NFSVolumes = 1, AdminPassword = ''secret''\<rparr>)) \<noteq> None"
proof -
  have r: "Read (Inr ''{}'') (\<lambda>_. Inr zeroPlan) = Inr (setDefaults (readDeprecatedFields zeroPlan))"
    by (simp add: Read_def)
  have z: "CNI (AddOns zeroPlan) = None" by (simp add: zeroPlan_def)
  from cni_always_present [of "Inr ''{}''" "\<lambda>_. Inr zeroPlan"] r z show ?thesis by blast
qed



subsection \<open>The line scan of Write\<close>

lemma popLoop_underflow:
  "i \<le> n \<Longrightarrow> int (length st) < n - i + 1 \<Longrightarrow> popLoop i n st = Inl EmptyStack"
proof (induction i n st rule: popLoop.induct)
  case (1 i n st)
  show ?case
  proof (cases "st = []")
    case True
    with "1.prems" show ?thesis by (simp add: popLoop.simps [of i n] Pop_def)
  next
    case False
    then have len: "int (length (butlast st)) = int (length st) - 1" by (cases st) auto
    with "1.prems" have "i + 1 \<le> n" "int (length (butlast st)) < n - (i + 1) + 1" by auto
    with "1.IH" [of "(last st, butlast st)" "last st" "butlast st"] "1.prems" False
    show ?thesis by (simp add: popLoop.simps [of i n st] Pop_def)
  qed
qed

lemma scanLines_append:
  "scanLines st (xs @ ys) =
     (case scanLines st xs of Inl err \<Rightarrow> Inl err | Inr st' \<Rightarrow> scanLines st' ys)"
  by (induction xs arbitrary: st) (simp_all split: sum.split)

text \<open>
  C7: a line in which the key pattern finds no match is written to the file unchanged,
  followed by a line feed, and leaves the stack, the previous indentation and the working
  copy of the comments as they were.
\<close>

theorem scanLine_not_a_key_line:
  assumes "FindStringSubmatch text = None"
  shows "\<exists>st'. scanLine st text = Inr st'
     \<and> stack st' = stack st \<and> prevIndent st' = prevIndent st
     \<and> oneTimeComments st' = oneTimeComments st
     \<and> fileText st' = fileText st @ text @ newline"
  using assms by (simp add: scanLine_def)

theorem scanLine_not_a_key_line_witness:
  "FindStringSubmatch ''  - 10.0.0.1'' = None
   \<and> (\<exists>st'. scanLine \<lparr>stack = [''cluster'', ''networking'', ''no_proxy''], prevIndent = 2,
                addNewLineBeforeComment = False, oneTimeComments = commentMap,
                fileText = ''cluster:''\<rparr> ''  - 10.0.0.1'' = Inr st'
         \<and> stack st' = [''cluster'', ''networking'', ''no_proxy'']
         \<and> fileText st' = ''cluster:  - 10.0.0.1'' @ newline)"
proof -
  have n: "FindStringSubmatch ''  - 10.0.0.1'' = None"
    by (simp add: matchKey_def isKeyChar_def isLetter_def)
  from scanLine_not_a_key_line [OF n, of "\<lparr>stack = [''cluster'', ''networking'', ''no_proxy''],
      prevIndent = 2, addNewLineBeforeComment = False, oneTimeComments = commentMap,
      fileText = ''cluster:''\<rparr>"] n
  show ?thesis by auto
qed

text \<open>
  C9: when a key line asks for more pops than the stack has entries, so that a pop meets
  the empty stack, the scan of that line returns the error \<^verbatim>\<open>Empty Stack\<close> and
  \<^verbatim>\<open>Write\<close> returns it to its caller, whatever lines follow.
\<close>

theorem Write_fails_on_empty_stack:
  assumes "scanLines startState before = Inr st"
    and "FindStringSubmatch text = Some (matched0, matched1)"
    and "indent = CountSpaces matched0 div 2"
    and "indent \<le> prevIndent st"
    and "int (length (stack st)) < prevIndent st - indent + 1"
  shows "scanLine st text = Inl EmptyStack
     \<and> Write (Inr (before @ text # rest)) None = Inl EmptyStack"
proof -
  from assms(4,5) have "popLoop 0 (prevIndent st - indent) (stack st) = Inl EmptyStack"
    by (intro popLoop_underflow) auto
  with assms(2,3,4) have l: "scanLine st text = Inl EmptyStack"
    by (auto simp add: scanLine_def Let_def)
  with assms(1) show ?thesis
    by (simp add: Write_def scanLines_append)
qed

theorem Write_fails_on_empty_stack_witness:
  "Write (Inr [''      a:'', ''b:'', ''c:'']) None = Inl EmptyStack"
proof -
  have m2: "FindStringSubmatch ''b:'' = Some (''b:'', ''b'')"
    by (simp add: matchKey_def isKeyChar_def isLetter_def)
  have s: "scanLines startState [''      a:''] = Inr \<lparr>stack = [''a''], prevIndent = 3,
      addNewLineBeforeComment = True, oneTimeComments = commentMap,
      fileText = ''      a:'' @ newline\<rparr>"
    by (simp add: scanLine_def startState_def CountSpaces_def Let_def Push_def newStack_def
        commentMap_def commentMapEntries_def matchKey_def isKeyChar_def isLetter_def)
  from Write_fails_on_empty_stack [OF s m2, of 0 "[''c:'']"]
  show ?thesis by (simp add: CountSpaces_def)
qed

text \<open>
  The key that \<^verbatim>\<open>delete(oneTimeComments, matched[1])\<close> removes is the last segment of
  the path, which has no dot: an entry whose path has several segments is never removed
  from the working copy.
\<close>

lemma isKeyChar_not_dot: "isKeyChar c \<Longrightarrow> c \<noteq> CHR ''.''"
  by (auto simp add: isKeyChar_def isLetter_def)

lemma matchKey_group: "matchKey str = Some (m, key) \<Longrightarrow> key \<noteq> [] \<and> list_all isKeyChar key"
  by (auto simp add: matchKey_def Let_def list_all_iff split: list.splits if_splits
      dest: set_takeWhileD)

lemma matchHere_group: "matchHere str = Some (m, key) \<Longrightarrow> key \<noteq> [] \<and> list_all isKeyChar key"
proof (induction str arbitrary: m)
  case Nil
  then show ?case by simp
next
  case (Cons c cs)
  then show ?case
    by (auto split: if_splits option.splits dest: matchKey_group)
qed

lemma FindStringSubmatch_group:
  "FindStringSubmatch str = Some (m, key) \<Longrightarrow> key \<noteq> [] \<and> list_all isKeyChar key"
proof (induction str)
  case Nil
  then show ?case by simp
next
  case (Cons c cs)
  show ?case
  proof (cases "matchHere (c # cs)")
    case None
    with Cons show ?thesis by simp
  next
    case (Some r)
    with Cons.prems have "matchHere (c # cs) = Some (m, key)" by simp
    then show ?thesis by (rule matchHere_group)
  qed
qed

lemma scanLine_keeps_nested_paths:
  assumes "scanLine st text = Inr st'" and "CHR ''.'' \<in> set path"
  shows "oneTimeComments st' path = oneTimeComments st path"
proof (cases "FindStringSubmatch text")
  case None
  with assms(1) show ?thesis by (auto simp add: scanLine_def)
next
  case (Some r)
  obtain m key where r: "r = (m, key)" by (cases r)
  with Some FindStringSubmatch_group [of "text" m key] have "list_all isKeyChar key" by simp
  with assms(2) have "path \<noteq> key"
    by (auto simp add: list_all_iff dest: isKeyChar_not_dot)
  with assms(1) Some r show ?thesis
    by (auto simp add: scanLine_def Let_def split: sum.splits option.splits if_splits)
qed

lemma scanLines_keeps_nested_paths:
  "scanLines st ls = Inr st' \<Longrightarrow> CHR ''.'' \<in> set path \<Longrightarrow>
     oneTimeComments st' path = oneTimeComments st path"
proof (induction ls arbitrary: st)
  case Nil
  then show ?case by simp
next
  case (Cons l rest)
  then show ?case
    by (auto split: sum.splits dest: scanLine_keeps_nested_paths)
qed

text \<open>
  C2 fails on the code for paths of several segments: in the text of a plan with two NFS
  volumes the path \<^verbatim>\<open>nfs.nfs_host\<close> occurs twice and is annotated with its comment both
  times.
\<close>

theorem Write_annotates_nested_path_twice:
  "Write (Inr twoVolumeLines) None = Inr (unlines
     [[],
      ''# A set of NFS volumes for use by on-cluster persistent workloads'',
      ''nfs:'',
      ''  nfs_volume:'',
      [],
      ''  # The host name or ip address of an NFS server.'',
      ''  - nfs_host: '' @ [CHR 0x22, CHR 0x22],
      ''    mount_path: /'',
      [],
      ''  # The host name or ip address of an NFS server.'',
      ''  - nfs_host: '' @ [CHR 0x22, CHR 0x22],
      ''    mount_path: /''])"
  by code_simp

end
